theory Spec2Isabelle
  imports Complex_Main "HOL-Library.Sublist" "HOL-Library.Multiset"
    "HOL-Library.Char_ord" "HOL-Library.List_Lexorder" "HOL-Library.Monad_Syntax"
begin

section \<open>Numbers\<close>

text \<open>
  The server computes with JavaScript numbers. They are modelled as \<^typ>\<open>real\<close>: arithmetic is
  exact, so the rounding of binary floating point is not part of the model. The values that
  IEEE arithmetic adds to the reals are made explicit at the places where the code can produce
  them: a string that does not parse is \<open>None\<close> (\<open>NaN\<close>), and the quotient of a division whose
  divisor the code does not guard is a \<open>jsnum\<close>.
\<close>

datatype jsnum = Fin real | PosInf | NegInf | NaN

text \<open>\<open>a / b\<close> for finite \<open>a\<close> and \<open>b\<close>, where a zero divisor is the positive zero.\<close>

definition js_div :: "real \<Rightarrow> real \<Rightarrow> jsnum" where
  "js_div a b =
     (if b \<noteq> 0 then Fin (a / b)
      else if a > 0 then PosInf
      else if a < 0 then NegInf
      else NaN)"

text \<open>\<open>x * c\<close> for a positive finite constant \<open>c\<close>.\<close>

fun js_scale :: "jsnum \<Rightarrow> real \<Rightarrow> jsnum" where
  "js_scale (Fin x) c = Fin (x * c)"
| "js_scale PosInf c = PosInf"
| "js_scale NegInf c = NegInf"
| "js_scale NaN c = NaN"

fun js_lt :: "jsnum \<Rightarrow> real \<Rightarrow> bool" where
  "js_lt (Fin x) c = (x < c)"
| "js_lt PosInf c = False"
| "js_lt NegInf c = True"
| "js_lt NaN c = False"

fun js_gt :: "jsnum \<Rightarrow> real \<Rightarrow> bool" where
  "js_gt (Fin x) c = (x > c)"
| "js_gt PosInf c = True"
| "js_gt NegInf c = False"
| "js_gt NaN c = False"

text \<open>
  A number that is neither \<open>NaN\<close> nor infinite. A computation in the option monad yields
  \<open>None\<close> as soon as one of its numbers is not finite.
\<close>

fun js_finite :: "jsnum \<Rightarrow> real option" where
  "js_finite (Fin x) = Some x"
| "js_finite PosInf = None"
| "js_finite NegInf = None"
| "js_finite NaN = None"

text \<open>\<open>Math.sqrt\<close>, which is \<open>NaN\<close> below zero.\<close>

definition js_sqrt :: "real \<Rightarrow> real option" where
  "js_sqrt x = (if x < 0 then None else Some (sqrt x))"

text \<open>\<open>Math.round\<close>: the nearest integer, a tie going up.\<close>

definition js_round :: "real \<Rightarrow> int" where
  "js_round x = \<lfloor>x + 1 / 2\<rfloor>"

section \<open>Strings\<close>

text \<open>
  A string is a list of characters. \<open>toLowerCase\<close>, \<open>trim\<close> and the character classes of the
  regular expressions are modelled on ASCII, where the statements that the server reads live.
\<close>

definition isSpace :: "char \<Rightarrow> bool" where
  "isSpace c = (c \<in> set [CHR '' '', CHR 0x09, CHR 0x0A, CHR 0x0B, CHR 0x0C, CHR 0x0D])"

definition isDigit :: "char \<Rightarrow> bool" where
  "isDigit c = (c \<in> set ''0123456789'')"

definition toLowerChar :: "char \<Rightarrow> char" where
  "toLowerChar c =
     (if CHR ''A'' \<le> c \<and> c \<le> CHR ''Z'' then char_of (of_char c + (32::nat)) else c)"

definition toLowerCase :: "string \<Rightarrow> string" where
  "toLowerCase s = map toLowerChar s"

definition trim :: "string \<Rightarrow> string" where
  "trim s = rev (dropWhile isSpace (rev (dropWhile isSpace s)))"

text \<open>\<open>s.includes(sub)\<close>: \<open>sub\<close> occurs in \<open>s\<close> as a contiguous piece.\<close>

definition js_includes :: "string \<Rightarrow> string \<Rightarrow> bool" where
  "js_includes s sub = sublist sub s"

text \<open>\<open>s.replace(/,/g, '')\<close>.\<close>

definition removeCommas :: "string \<Rightarrow> string" where
  "removeCommas s = filter (\<lambda>c. c \<noteq> CHR '','') s"

subsection \<open>parseFloat\<close>

text \<open>The value of a digit is its place in the row of the ten digits.\<close>

definition digitValue :: "char \<Rightarrow> int" where
  "digitValue c = int (length (takeWhile (\<lambda>d. d \<noteq> c) ''0123456789''))"

definition digitsValue :: "string \<Rightarrow> int" where
  "digitsValue ds = foldl (\<lambda>n c. 10 * n + digitValue c) 0 ds"

text \<open>The exponent part \<open>e\<close>, \<open>e+\<close> or \<open>e-\<close> with at least one digit; anything else is not read.\<close>

definition exponentPart :: "string \<Rightarrow> int" where
  "exponentPart s =
     (case s of
        [] \<Rightarrow> 0
      | c # r \<Rightarrow>
          if c = CHR ''e'' \<or> c = CHR ''E'' then
            (case r of
               [] \<Rightarrow> 0
             | d # r' \<Rightarrow>
                 if d = CHR ''-'' then
                   (if takeWhile isDigit r' = [] then 0
                    else - digitsValue (takeWhile isDigit r'))
                 else if d = CHR ''+'' then digitsValue (takeWhile isDigit r')
                 else digitsValue (takeWhile isDigit r))
          else 0)"

definition scale10 :: "real \<Rightarrow> int \<Rightarrow> real" where
  "scale10 x e = (if e \<ge> 0 then x * 10 ^ nat e else x / 10 ^ nat (- e))"

text \<open>
  \<open>parseFloat\<close>: leading white space is skipped, then the longest prefix that is a signed decimal
  literal is read; \<open>None\<close> is \<open>NaN\<close>. The value is the exact decimal value. The literal
  \<open>Infinity\<close> and literals beyond the range of a double are outside the model.
\<close>

definition parseFloat :: "string \<Rightarrow> real option" where
  "parseFloat s =
     (let s1 = dropWhile isSpace s;
          neg = (case s1 of [] \<Rightarrow> False | c # _ \<Rightarrow> c = CHR ''-'');
          s2 = (case s1 of [] \<Rightarrow> [] | c # r \<Rightarrow> if c = CHR ''-'' \<or> c = CHR ''+'' then r else s1);
          ip = takeWhile isDigit s2;
          r1 = dropWhile isDigit s2;
          hasDot = (case r1 of [] \<Rightarrow> False | c # _ \<Rightarrow> c = CHR ''.'');
          fp = (if hasDot then takeWhile isDigit (tl r1) else []);
          r2 = (if hasDot then dropWhile isDigit (tl r1) else r1)
      in if ip = [] \<and> fp = [] then None
         else
           (let m = real_of_int (digitsValue ip) + real_of_int (digitsValue fp) / 10 ^ length fp;
                v = scale10 m (exponentPart r2)
            in Some (if neg then - v else v)))"

subsection \<open>Numbers to text\<close>

definition digitChar :: "int \<Rightarrow> char" where
  "digitChar d = ''0123456789'' ! nat d"

text \<open>The decimal digits of an integer that is not negative.\<close>

function digitsOf :: "int \<Rightarrow> string" where
  "digitsOf n =
     (if n < 10 then [digitChar n]
      else digitsOf (n div 10) @ [digitChar (n mod 10)])"
  by pat_completeness auto
termination
  by (relation "measure nat") auto

text \<open>The decimal text of an integer, as a template literal writes it.\<close>

definition showInt :: "int \<Rightarrow> string" where
  "showInt i = (if i < 0 then CHR ''-'' # digitsOf (- i) else digitsOf i)"

text \<open>\<open>s.padStart(2, '0')\<close>.\<close>

definition padStart2 :: "string \<Rightarrow> string" where
  "padStart2 s = (if length s < 2 then replicate (2 - length s) CHR ''0'' @ s else s)"

section \<open>Data model\<close>

datatype kind = income | expense

record transaction =
  amount :: real
  kind :: kind
  description :: string
  date :: string

record monthrow =
  month :: string
  mr_income :: real
  mr_expenses :: real
  mr_savings :: real

text \<open>The date range; \<open>start\<close> and \<open>end\<close> are kept as time values (milliseconds), not as ISO text.\<close>

record dateRange =
  dr_start :: int
  dr_end :: int
  dr_days :: int

record analysis =
  totalIncome :: real
  totalExpenses :: real
  savings :: real
  averageMonthlyIncome :: real
  averageMonthlyExpenses :: real
  savingsPerMonth :: real
  savingsRate :: real
  transactionCount :: nat
  transactions :: "transaction list"
  incomeConsistency :: real
  spendingVolatility :: real
  emergencySavingsBuffer :: real
  billPaymentRegularity :: real
  accountAgeMonths :: real
  monthlyDebtObligations :: real
  totalDebtObligations :: real
  monthlyBreakdown :: "monthrow list"
  dateRange :: dateRange

section \<open>parsePDF\<close>

text \<open>
  The part of \<open>parsePDF\<close> that works on the text of the document, once it has been read.
\<close>

text \<open>\<open>text.split('\n')\<close>.\<close>

fun splitLines :: "string \<Rightarrow> string list" where
  "splitLines [] = [[]]"
| "splitLines (c # cs) =
     (if c = CHR 0x0A then [] # splitLines cs
      else (case splitLines cs of [] \<Rightarrow> [[c]] | l # ls \<Rightarrow> (c # l) # ls))"

text \<open>\<open>s.replace(sub, '')\<close> for a string \<open>sub\<close>: the first occurrence is removed.\<close>

fun removeFirst :: "string \<Rightarrow> string \<Rightarrow> string" where
  "removeFirst sub [] = []"
| "removeFirst sub (c # cs) =
     (if prefix sub (c # cs) then drop (length sub) (c # cs) else c # removeFirst sub cs)"

text \<open>\<open>s.replace(/\s+/g, ' ')\<close>: every run of white space becomes one space.\<close>

function collapseSpaces :: "string \<Rightarrow> string" where
  "collapseSpaces [] = []"
| "collapseSpaces (c # cs) =
     (if isSpace c then CHR '' '' # collapseSpaces (dropWhile isSpace cs)
      else c # collapseSpaces cs)"
  by pat_completeness auto
termination
  by (relation "measure length") (auto simp: le_imp_less_Suc length_dropWhile_le)

subsection \<open>The date pattern\<close>

text \<open>
  \<open>/(\d{1,2}[\/\-]\d{1,2}[\/\-]\d{2,4})/\<close>. A match at the start of a string is tried with the
  lengths of the three groups of digits in the order of a greedy search with backtracking.
\<close>

definition isDateSep :: "char \<Rightarrow> bool" where
  "isDateSep c = (c = CHR ''/'' \<or> c = CHR ''-'')"

definition digitsAt :: "nat \<Rightarrow> string \<Rightarrow> bool" where
  "digitsAt n s = (length s \<ge> n \<and> list_all isDigit (take n s))"

definition sepAt :: "string \<Rightarrow> bool" where
  "sepAt s = (case s of [] \<Rightarrow> False | c # _ \<Rightarrow> isDateSep c)"

definition dateShape :: "string \<Rightarrow> nat \<times> nat \<times> nat \<Rightarrow> bool" where
  "dateShape s ns =
     (case ns of (n1, n2, n3) \<Rightarrow>
        digitsAt n1 s \<and> sepAt (drop n1 s)
        \<and> digitsAt n2 (drop (n1 + 1) s) \<and> sepAt (drop (n1 + 1 + n2) s)
        \<and> digitsAt n3 (drop (n1 + 1 + n2 + 1) s))"

definition dateShapes :: "(nat \<times> nat \<times> nat) list" where
  "dateShapes =
     [(2, 2, 4), (2, 2, 3), (2, 2, 2), (2, 1, 4), (2, 1, 3), (2, 1, 2),
      (1, 2, 4), (1, 2, 3), (1, 2, 2), (1, 1, 4), (1, 1, 3), (1, 1, 2)]"

definition dateAt :: "string \<Rightarrow> string option" where
  "dateAt s =
     (case find (dateShape s) dateShapes of
        None \<Rightarrow> None
      | Some (n1, n2, n3) \<Rightarrow> Some (take (n1 + 1 + n2 + 1 + n3) s))"

text \<open>\<open>line.match(datePattern)\<close>: the leftmost match.\<close>

fun dateMatch :: "string \<Rightarrow> string option" where
  "dateMatch [] = None"
| "dateMatch (c # cs) =
     (case dateAt (c # cs) of None \<Rightarrow> dateMatch cs | Some m \<Rightarrow> Some m)"

text \<open>\<open>line.replace(datePattern, '')\<close>: the leftmost match is removed.\<close>

fun removeDate :: "string \<Rightarrow> string" where
  "removeDate [] = []"
| "removeDate (c # cs) =
     (case dateAt (c # cs) of None \<Rightarrow> c # removeDate cs | Some m \<Rightarrow> drop (length m) (c # cs))"

subsection \<open>The amount pattern\<close>

text \<open>
  \<open>/([+-]?[\d,]+\.?\d*)/g\<close>. A match at the start of a string: a sign only when a digit or
  a comma follows it, the longest run of digits and commas, a dot when there is one, the
  longest run of digits.
\<close>

definition isAmountChar :: "char \<Rightarrow> bool" where
  "isAmountChar c = (isDigit c \<or> c = CHR '','')"

definition amountAt :: "string \<Rightarrow> string option" where
  "amountAt s =
     (let sign = (case s of
                    [] \<Rightarrow> []
                  | c # r \<Rightarrow>
                      if (c = CHR ''+'' \<or> c = CHR ''-'')
                         \<and> (case r of [] \<Rightarrow> False | d # _ \<Rightarrow> isAmountChar d)
                      then [c] else []);
          r1 = drop (length sign) s;
          body = takeWhile isAmountChar r1;
          r2 = dropWhile isAmountChar r1;
          dot = (case r2 of [] \<Rightarrow> [] | c # _ \<Rightarrow> if c = CHR ''.'' then [c] else []);
          frac = takeWhile isDigit (drop (length dot) r2)
      in if body = [] then None else Some (sign @ body @ dot @ frac))"

text \<open>
  \<open>line.match(amountPattern)\<close>: the matches from left to right, each search starting where
  the match before it ended. The first argument counts the characters of the last match that
  are still to be passed over. The empty list stands for \<open>null\<close>.
\<close>

fun amountScan :: "nat \<Rightarrow> string \<Rightarrow> string list" where
  "amountScan n [] = []"
| "amountScan (Suc n) (c # cs) = amountScan n cs"
| "amountScan 0 (c # cs) =
     (case amountAt (c # cs) of
        None \<Rightarrow> amountScan 0 cs
      | Some tok \<Rightarrow> tok # amountScan (length tok - 1) cs)"

definition amountTokens :: "string \<Rightarrow> string list" where
  "amountTokens line = amountScan 0 line"

text \<open>\<open>line.replace(amountPattern, '')\<close>: every match is removed.\<close>

fun removeScan :: "nat \<Rightarrow> string \<Rightarrow> string" where
  "removeScan n [] = []"
| "removeScan (Suc n) (c # cs) = removeScan n cs"
| "removeScan 0 (c # cs) =
     (case amountAt (c # cs) of
        None \<Rightarrow> c # removeScan 0 cs
      | Some tok \<Rightarrow> removeScan (length tok - 1) cs)"

definition removeAmounts :: "string \<Rightarrow> string" where
  "removeAmounts line = removeScan 0 line"

subsection \<open>The two passes\<close>

datatype pdfType = credit | debit

record pdfTransaction =
  pdf_date :: string
  pdf_description :: string
  pdf_amount :: real
  pdf_type :: pdfType

definition isHeaderLine :: "string \<Rightarrow> bool" where
  "isHeaderLine line =
     (js_includes (toLowerCase line) ''date'' \<or> js_includes (toLowerCase line) ''description''
      \<or> js_includes (toLowerCase line) ''amount'' \<or> js_includes (toLowerCase line) ''balance''
      \<or> length line < 5)"

text \<open>The body of the first loop for one element of \<open>lines\<close>; \<open>None\<close> when nothing is pushed.\<close>

definition firstPass :: "string \<Rightarrow> pdfTransaction option" where
  "firstPass rawLine =
     (let line = trim rawLine in
      if isHeaderLine line then None
      else
        (let matched = dateMatch line;
             dateText = (case matched of None \<Rightarrow> [] | Some m \<Rightarrow> m);
             amounts = amountTokens line
         in if amounts \<noteq> [] then
              (case parseFloat (removeCommas (last amounts)) of
                 None \<Rightarrow> None
               | Some amt \<Rightarrow>
                   if \<bar>amt\<bar> > 0 \<and> \<bar>amt\<bar> < 10000000 then
                     (let d1 = (case matched of None \<Rightarrow> line | Some m \<Rightarrow> trim (removeFirst m line));
                          d2 = foldl (\<lambda>d a. trim (removeFirst a d)) d1 amounts;
                          d3 = trim (collapseSpaces d2)
                      in if length d3 > 0 then
                           Some \<lparr> pdf_date = (if dateText \<noteq> [] then dateText else ''N/A''),
                                  pdf_description = (if d3 \<noteq> [] then d3 else ''Transaction''),
                                  pdf_amount = amt,
                                  pdf_type = (if amt > 0 then credit else debit) \<rparr>
                         else None)
                   else None)
            else None))"

text \<open>The body of the second loop, which runs when the first one pushed nothing.\<close>

definition secondPass :: "string \<Rightarrow> pdfTransaction option" where
  "secondPass line =
     (case dateMatch line of
        None \<Rightarrow> None
      | Some m \<Rightarrow>
          (let amounts = amountTokens line
           in if amounts \<noteq> [] then
                (case parseFloat (removeCommas (last amounts)) of
                   None \<Rightarrow> None
                 | Some amt \<Rightarrow>
                     if \<bar>amt\<bar> > 0 then
                       (let d = trim (removeAmounts (removeDate line))
                        in Some \<lparr> pdf_date = m,
                                  pdf_description = (if d \<noteq> [] then d else ''Transaction''),
                                  pdf_amount = amt,
                                  pdf_type = (if amt > 0 then credit else debit) \<rparr>)
                     else None)
              else None))"

text \<open>
  The array \<open>transactions\<close> that \<open>parsePDF\<close> builds from the text. The function returns it with
  each amount written as text by \<open>toString\<close>.
\<close>

definition parsePDF :: "string \<Rightarrow> pdfTransaction list" where
  "parsePDF text =
     (let lines = filter (\<lambda>line. length (trim line) > 0) (splitLines text);
          transactions = List.map_filter firstPass lines
      in if length transactions = 0 then List.map_filter secondPass lines
         else transactions)"

section \<open>analyzeTransactions: the rows\<close>

text \<open>
  A row is an object whose values are strings; it is kept as the list of its entries in the
  order of \<open>Object.keys\<close>.
\<close>

type_synonym row = "(string \<times> string) list"

definition keys :: "row \<Rightarrow> string list" where
  "keys row = map fst row"

definition field :: "row \<Rightarrow> string \<Rightarrow> string option" where
  "field row k = map_of row k"

definition amountColumns :: "string list" where
  "amountColumns =
     [''amount'', ''transaction_amount'', ''amount_inr'', ''value'', ''balance'',
      ''credit'', ''debit'', ''deposit'', ''withdrawal'', ''transaction value'',
      ''amt'', ''amount (inr)'', ''transaction amount'', ''balance amount'']"

definition typeColumns :: "string list" where
  "typeColumns =
     [''type'', ''transaction_type'', ''category'', ''description'', ''narration'',
      ''particulars'', ''details'', ''transaction description'', ''remarks'']"

definition dateColumns :: "string list" where
  "dateColumns =
     [''date'', ''transaction_date'', ''date_time'', ''value date'',
      ''transaction date'', ''date of transaction'', ''posting date'']"

definition matchingKey :: "row \<Rightarrow> string \<Rightarrow> string option" where
  "matchingKey row col =
     find (\<lambda>k. trim (toLowerCase k) = trim (toLowerCase col)) (keys row)"

text \<open>The value under the matching key, when there is one and it is not the empty string.\<close>

definition matchingValue :: "row \<Rightarrow> string \<Rightarrow> string option" where
  "matchingValue row col =
     (case matchingKey row col of
        None \<Rightarrow> None
      | Some k \<Rightarrow>
          (case field row k of
             None \<Rightarrow> None
           | Some v \<Rightarrow> if v = [] then None else Some v))"

text \<open>The loop over \<open>amountColumns\<close>; it stops at the first value that parses to a non-zero number.\<close>

fun amountFromColumns :: "row \<Rightarrow> string list \<Rightarrow> real \<Rightarrow> real" where
  "amountFromColumns row [] amt = amt"
| "amountFromColumns row (col # cols) amt =
     (case matchingValue row col of
        None \<Rightarrow> amountFromColumns row cols amt
      | Some v \<Rightarrow>
          (let amt' = (case parseFloat (removeCommas v) of None \<Rightarrow> 0 | Some x \<Rightarrow> x)
           in if amt' \<noteq> 0 then amt' else amountFromColumns row cols amt'))"

text \<open>The loops over \<open>typeColumns\<close> and \<open>dateColumns\<close>: the first value found.\<close>

fun firstMatchingValue :: "row \<Rightarrow> string list \<Rightarrow> string option" where
  "firstMatchingValue row [] = None"
| "firstMatchingValue row (col # cols) =
     (case matchingValue row col of
        None \<Rightarrow> firstMatchingValue row cols
      | Some v \<Rightarrow> Some v)"

definition descriptionFromKeys :: "row \<Rightarrow> string" where
  "descriptionFromKeys row =
     (case filter (\<lambda>k. js_includes (toLowerCase k) ''description''
                       \<or> js_includes (toLowerCase k) ''narration''
                       \<or> js_includes (toLowerCase k) ''particulars'') (keys row) of
        [] \<Rightarrow> []
      | k # _ \<Rightarrow> (case field row k of None \<Rightarrow> [] | Some v \<Rightarrow> v))"

text \<open>The scan of every field for a numeric value, run when no amount was found.\<close>

fun amountFromAnyField :: "row \<Rightarrow> string list \<Rightarrow> real option" where
  "amountFromAnyField row [] = None"
| "amountFromAnyField row (key # ks) =
     (if js_includes (toLowerCase key) ''date'' \<or> js_includes (toLowerCase key) ''id''
         \<or> js_includes (toLowerCase key) ''no''
      then amountFromAnyField row ks
      else
        (case parseFloat (removeCommas (case field row key of None \<Rightarrow> ''undefined'' | Some v \<Rightarrow> v)) of
           None \<Rightarrow> amountFromAnyField row ks
         | Some v \<Rightarrow>
             if \<bar>v\<bar> > 0 \<and> \<bar>v\<bar> < 100000000 then Some v else amountFromAnyField row ks))"

text \<open>The amount of a row once both searches have run.\<close>

definition rowAmount :: "row \<Rightarrow> real" where
  "rowAmount row =
     (let amt = amountFromColumns row amountColumns 0
      in if amt = 0 then
           (case amountFromAnyField row (keys row) of None \<Rightarrow> amt | Some v \<Rightarrow> v)
         else amt)"

text \<open>The variables \<open>type\<close>, \<open>description\<close> and \<open>date\<close> of a row.\<close>

definition rowType :: "row \<Rightarrow> string" where
  "rowType row = (case firstMatchingValue row typeColumns of None \<Rightarrow> [] | Some v \<Rightarrow> toLowerCase v)"

definition rowDescription :: "row \<Rightarrow> string" where
  "rowDescription row =
     (let descr = (case firstMatchingValue row typeColumns of None \<Rightarrow> [] | Some v \<Rightarrow> v)
      in if descr = [] then descriptionFromKeys row else descr)"

definition rowDate :: "row \<Rightarrow> string" where
  "rowDate row = (case firstMatchingValue row dateColumns of None \<Rightarrow> [] | Some v \<Rightarrow> v)"

text \<open>\<open>type || description || 'Transaction'\<close> and \<open>type || description || ''\<close>.\<close>

definition rowLabel :: "row \<Rightarrow> string \<Rightarrow> string" where
  "rowLabel row dflt =
     (if rowType row \<noteq> [] then rowType row
      else if rowDescription row \<noteq> [] then rowDescription row
      else dflt)"

definition isExpenseText :: "string \<Rightarrow> bool" where
  "isExpenseText descLower =
     (js_includes descLower ''purchase'' \<or> js_includes descLower ''check''
      \<or> js_includes descLower ''withdrawal'' \<or> js_includes descLower ''charge''
      \<or> js_includes descLower ''debit'' \<or> js_includes descLower ''payment''
      \<or> js_includes descLower ''fee'')"

definition isIncomeText :: "string \<Rightarrow> bool" where
  "isIncomeText descLower =
     (js_includes descLower ''credit'' \<or> js_includes descLower ''deposit''
      \<or> js_includes descLower ''interest'' \<or> js_includes descLower ''salary''
      \<or> js_includes descLower ''income'' \<or> js_includes descLower ''preauthorized'')"

text \<open>The object pushed to \<open>transactions\<close> for a row, given its kind.\<close>

definition pushed :: "row \<Rightarrow> kind \<Rightarrow> transaction" where
  "pushed row k =
     \<lparr> amount = \<bar>rowAmount row\<bar>, kind = k,
       description = rowLabel row ''Transaction'',
       date = (if rowDate row \<noteq> [] then rowDate row else ''N/A'') \<rparr>"

text \<open>
  The body of \<open>data.forEach\<close>. The state is \<open>totalIncome\<close>, \<open>totalExpenses\<close> and
  \<open>transactions\<close>, here \<open>ti\<close>, \<open>te\<close> and \<open>txs\<close>; \<open>amt\<close> is the variable \<open>amount\<close>.
\<close>

definition processRow ::
  "row \<Rightarrow> real \<times> real \<times> transaction list \<Rightarrow> real \<times> real \<times> transaction list" where
  "processRow row state =
     (case state of (ti, te, txs) \<Rightarrow>
        (let amt = rowAmount row in
         if field row ''type'' = Some ''credit'' then
           (ti + \<bar>amt\<bar>, te, txs @ [pushed row income])
         else if field row ''type'' = Some ''debit'' then
           (ti, te + \<bar>amt\<bar>, txs @ [pushed row expense])
         else
           (let descLower = toLowerCase (rowLabel row []);
                isExpense = isExpenseText descLower;
                isIncome = isIncomeText descLower
            in if isExpense then
                 (ti, te + \<bar>amt\<bar>, txs @ [pushed row expense])
               else if isIncome \<or> amt > 0 then
                 (ti + \<bar>amt\<bar>, te, txs @ [pushed row income])
               else if amt < 0 then
                 (ti, te + \<bar>amt\<bar>, txs @ [pushed row expense])
               else
                 (ti + amt, te, txs @ [pushed row income]))))"

definition processRows :: "row list \<Rightarrow> real \<times> real \<times> transaction list" where
  "processRows data = foldl (\<lambda>state row. processRow row state) (0, 0, []) data"

section \<open>analyzeTransactions: the metrics\<close>

text \<open>
  A \<open>Date\<close> object, by what the code reads of it: \<open>getTime()\<close>, \<open>getFullYear()\<close> and
  \<open>getMonth()\<close>.
\<close>

record jsdate =
  getTime :: int
  getFullYear :: int
  getMonth :: int

text \<open>
  What the code takes from its host: \<open>new Date(s)\<close> for a string, where \<open>None\<close> is an invalid
  date, and the two readings of the clock by \<open>new Date()\<close> that stand for \<open>minDate\<close> and
  \<open>maxDate\<close> when no date is valid.
\<close>

record host =
  newDate :: "string \<Rightarrow> jsdate option"
  nowMin :: int
  nowMax :: int

definition calculateMean :: "real list \<Rightarrow> real option" where
  "calculateMean values =
     (if length values = 0 then Some 0
      else js_finite (js_div (foldl (\<lambda>sum val. sum + val) 0 values) (real (length values))))"

definition calculateStandardDeviation :: "real list \<Rightarrow> real option" where
  "calculateStandardDeviation values =
     (if length values = 0 then Some 0
      else do {
        mean \<leftarrow> calculateMean values;
        let squaredDiffs = map (\<lambda>val. (val - mean) ^ 2) values;
        avgSquaredDiff \<leftarrow> calculateMean squaredDiffs;
        js_sqrt avgSquaredDiff
      })"

subsection \<open>detectRecurringPayments\<close>

record pattern =
  p_description :: string
  p_amount :: real
  p_count :: nat
  p_dates :: "string list"

text \<open>The object \<open>patterns\<close>, as the list of its entries in the order they were created.\<close>

definition patternKey :: "transaction \<Rightarrow> string" where
  "patternKey t = toLowerCase (description t) @ ''_'' @ showInt (js_round (amount t))"

definition recordPayment :: "(string \<times> pattern) list \<Rightarrow> transaction \<Rightarrow> (string \<times> pattern) list" where
  "recordPayment patterns t =
     (let key = patternKey t;
          patterns1 =
            (if map_of patterns key = None then
               patterns @ [(key, \<lparr> p_description = description t, p_amount = amount t,
                                    p_count = 0, p_dates = [] \<rparr>)]
             else patterns)
      in map (\<lambda>(k, p). if k = key then
                 (k, p\<lparr> p_count := p_count p + 1,
                        p_dates := (if date t \<noteq> [] then p_dates p @ [date t] else p_dates p) \<rparr>)
               else (k, p)) patterns1)"

definition detectRecurringPayments :: "transaction list \<Rightarrow> pattern list" where
  "detectRecurringPayments txs =
     filter (\<lambda>p. p_count p \<ge> 2) (map snd (foldl recordPayment [] txs))"

subsection \<open>The months\<close>

record bucket =
  b_income :: real
  b_expenses :: real
  b_count :: nat

definition monthKeyOf :: "jsdate \<Rightarrow> string" where
  "monthKeyOf d = showInt (getFullYear d) @ ''-'' @ padStart2 (digitsOf (getMonth d + 1))"

text \<open>The object \<open>monthlyData\<close>, as the list of its entries in the order they were created.\<close>

definition recordMonth :: "host \<Rightarrow> (string \<times> bucket) list \<Rightarrow> transaction \<Rightarrow> (string \<times> bucket) list" where
  "recordMonth h monthlyData t =
     (case newDate h (date t) of
        None \<Rightarrow> monthlyData
      | Some d \<Rightarrow>
          (let monthKey = monthKeyOf d;
               monthlyData1 =
                 (if map_of monthlyData monthKey = None then
                    monthlyData @ [(monthKey, \<lparr> b_income = 0, b_expenses = 0, b_count = 0 \<rparr>)]
                  else monthlyData)
           in map (\<lambda>(k, b). if k = monthKey then
                      (k, (if kind t = income then b\<lparr> b_income := b_income b + amount t \<rparr>
                           else b\<lparr> b_expenses := b_expenses b + amount t \<rparr>)
                          \<lparr> b_count := b_count b + 1 \<rparr>)
                    else (k, b)) monthlyData1))"

definition monthlyDataOf :: "host \<Rightarrow> transaction list \<Rightarrow> (string \<times> bucket) list" where
  "monthlyDataOf h txs = foldl (recordMonth h) [] txs"

subsection \<open>The date range\<close>

text \<open>The time values of the dates that are valid, in the order of the transactions.\<close>

definition validTimes :: "host \<Rightarrow> transaction list \<Rightarrow> int list" where
  "validTimes h txs = map getTime (List.map_filter (\<lambda>t. newDate h (date t)) txs)"

definition minDate :: "host \<Rightarrow> transaction list \<Rightarrow> int" where
  "minDate h txs = (case validTimes h txs of [] \<Rightarrow> nowMin h | t # ts \<Rightarrow> foldl min t ts)"

definition maxDate :: "host \<Rightarrow> transaction list \<Rightarrow> int" where
  "maxDate h txs = (case validTimes h txs of [] \<Rightarrow> nowMax h | t # ts \<Rightarrow> foldl max t ts)"

definition daysDiff :: "host \<Rightarrow> transaction list \<Rightarrow> int" where
  "daysDiff h txs =
     max 1 \<lceil>real_of_int (maxDate h txs - minDate h txs) / (1000 * 60 * 60 * 24)\<rceil>"

definition monthsDiff :: "host \<Rightarrow> transaction list \<Rightarrow> real" where
  "monthsDiff h txs = max 1 (real_of_int (daysDiff h txs) / 30)"

subsection \<open>Scores\<close>

definition incomeConsistencyOf :: "(string \<times> bucket) list \<Rightarrow> real option" where
  "incomeConsistencyOf monthlyData =
     (let incomeMonths = filter (\<lambda>i. i > 0) (map (\<lambda>m. b_income m) (map snd monthlyData))
      in if length incomeMonths > 0 then do {
           sd \<leftarrow> calculateStandardDeviation incomeMonths;
           mean \<leftarrow> calculateMean incomeMonths;
           q \<leftarrow> js_finite (js_div sd (if mean = 0 then 1 else mean));
           Some ((1 - q) * 100)
         }
         else Some 0)"

definition spendingVolatilityOf :: "(string \<times> bucket) list \<Rightarrow> real option" where
  "spendingVolatilityOf monthlyData =
     (let expenseMonths = filter (\<lambda>e. e > 0) (map (\<lambda>m. b_expenses m) (map snd monthlyData))
      in if length expenseMonths > 0 then do {
           sd \<leftarrow> calculateStandardDeviation expenseMonths;
           mean \<leftarrow> calculateMean expenseMonths;
           q \<leftarrow> js_finite (js_div sd (if mean = 0 then 1 else mean));
           Some (q * 100)
         }
         else Some 0)"

definition debtKeywords :: "string list" where
  "debtKeywords = [''loan'', ''emi'', ''credit card'', ''debt'', ''repayment'', ''installment'']"

definition debtTransactions :: "transaction list \<Rightarrow> transaction list" where
  "debtTransactions txs =
     filter (\<lambda>t. list_ex (\<lambda>keyword. js_includes (toLowerCase (description t)) keyword) debtKeywords) txs"

definition monthlyBreakdownOf :: "(string \<times> bucket) list \<Rightarrow> monthrow list" where
  "monthlyBreakdownOf monthlyData =
     map (\<lambda>k. case map_of monthlyData k of
                 None \<Rightarrow> \<lparr> month = k, mr_income = 0, mr_expenses = 0, mr_savings = 0 \<rparr>
               | Some b \<Rightarrow> \<lparr> month = k, mr_income = b_income b, mr_expenses = b_expenses b,
                             mr_savings = b_income b - b_expenses b \<rparr>)
         (sort (map fst monthlyData))"

subsection \<open>analyzeTransactions\<close>

definition analyzeTransactions :: "host \<Rightarrow> row list \<Rightarrow> analysis option" where
  "analyzeTransactions h data =
     (case processRows data of (ti, te, txs) \<Rightarrow>
        (let savings = ti - te;
             monthsDiff = monthsDiff h txs;
             monthlyData = monthlyDataOf h txs
         in do {
           averageMonthlyIncome \<leftarrow> js_finite (js_div ti monthsDiff);
           averageMonthlyExpenses \<leftarrow> js_finite (js_div te monthsDiff);
           let savingsPerMonth = averageMonthlyIncome - averageMonthlyExpenses;
           savingsRate \<leftarrow>
             (if averageMonthlyIncome > 0 then
                do { q \<leftarrow> js_finite (js_div savingsPerMonth averageMonthlyIncome); Some (q * 100) }
              else Some 0);
           incomeConsistency \<leftarrow> incomeConsistencyOf monthlyData;
           let incomeConsistencyScore = max 0 (min 100 incomeConsistency);
           spendingVolatility \<leftarrow> spendingVolatilityOf monthlyData;
           let spendingVolatilityScore = max 0 (min 100 (100 - spendingVolatility));
           emergencySavingsBuffer \<leftarrow>
             (if averageMonthlyExpenses > 0 then js_finite (js_div savings averageMonthlyExpenses)
              else Some 0);
           let recurringPatterns = detectRecurringPayments txs;
           let billPaymentRegularity = (if length recurringPatterns > 0 then 100 else 50);
           let totalDebtObligations = foldl (\<lambda>sum t. sum + amount t) 0 (debtTransactions txs);
           monthlyDebtObligations \<leftarrow> js_finite (js_div totalDebtObligations monthsDiff);
           Some \<lparr> totalIncome = ti,
                  totalExpenses = te,
                  savings = savings,
                  averageMonthlyIncome = averageMonthlyIncome,
                  averageMonthlyExpenses = averageMonthlyExpenses,
                  savingsPerMonth = savingsPerMonth,
                  savingsRate = savingsRate,
                  transactionCount = length txs,
                  transactions = take 50 txs,
                  incomeConsistency = incomeConsistencyScore,
                  spendingVolatility = spendingVolatilityScore,
                  emergencySavingsBuffer = emergencySavingsBuffer,
                  billPaymentRegularity = billPaymentRegularity,
                  accountAgeMonths = monthsDiff,
                  monthlyDebtObligations = monthlyDebtObligations,
                  totalDebtObligations = totalDebtObligations,
                  monthlyBreakdown = monthlyBreakdownOf monthlyData,
                  dateRange = \<lparr> dr_start = minDate h txs, dr_end = maxDate h txs,
                                dr_days = daysDiff h txs \<rparr> \<rparr>
         }))"

section \<open>checkEligibility\<close>

text \<open>
  The strings pushed to \<open>strengths\<close> and \<open>warnings\<close>, one constructor per text; a constructor
  carries the number its template formats.
\<close>

datatype message =
    IncomeExceedsExpenses
  | LowExpenseToIncomeRatio
  | HighExpenseToIncomeRatio
  | ExpensesExceedIncome
  | MonthlySavingsExceedsThreshold real
  | MonthlySavingsBelowThreshold real
  | NegativeMonthlySavings
  | HighSavingsRate real
  | ModerateSavingsRate real
  | LowSavingsRate real
  | VeryConsistentIncome
  | ModeratelyConsistentIncome
  | IrregularIncome
  | HighlyIrregularIncome
  | StableSpending
  | ModeratelyStableSpending
  | HighSpendingVolatility
  | StrongEmergencyBuffer real
  | AdequateEmergencyBuffer real
  | LowEmergencyBuffer real
  | NoEmergencyBuffer
  | RegularBillPayments
  | LongAccountHistory int
  | ModerateAccountHistory int
  | ShortAccountHistory int
  | HighDebtObligations jsnum
  | ModerateDebtObligations jsnum
  | LowDebtObligations jsnum
  | InsufficientCriteriaMet

datatype riskLevel = high | medium | low | very_low

record metrics =
  m_savingsRate :: real
  m_incomeConsistency :: real
  m_spendingVolatility :: real
  m_emergencySavingsBuffer :: real
  m_billPaymentRegularity :: real
  m_accountAgeMonths :: real
  m_monthlyDebtObligations :: real

record eligibility =
  eligible :: bool
  score :: int
  riskLevel :: riskLevel
  reasons :: "message list"
  strengths :: "message list"
  warnings :: "message list"
  recommendedLoanAmount :: int
  maxLoanAmount :: int
  metrics :: metrics

text \<open>The running state of the scorer: \<open>score\<close>, \<open>strengths\<close>, \<open>warnings\<close>.\<close>

type_synonym tally = "int \<times> message list \<times> message list"

definition award :: "int \<Rightarrow> tally \<Rightarrow> tally" where
  "award n t = (case t of (s, st, w) \<Rightarrow> (s + n, st, w))"

definition strength :: "message \<Rightarrow> tally \<Rightarrow> tally" where
  "strength m t = (case t of (s, st, w) \<Rightarrow> (s, st @ [m], w))"

definition warning :: "message \<Rightarrow> tally \<Rightarrow> tally" where
  "warning m t = (case t of (s, st, w) \<Rightarrow> (s, st, w @ [m]))"

definition threshold :: real where
  "threshold = 10000"

text \<open>1. Income vs Expenses (30 points).\<close>

definition incomeVsExpenses :: "analysis \<Rightarrow> tally \<Rightarrow> tally" where
  "incomeVsExpenses a t =
     (if totalIncome a > totalExpenses a then
        (let t1 = strength IncomeExceedsExpenses (award 30 t);
             ratio = js_scale (js_div (totalExpenses a) (totalIncome a)) 100
         in if js_lt ratio 70 then strength LowExpenseToIncomeRatio (award 5 t1)
            else if js_gt ratio 90 then warning HighExpenseToIncomeRatio t1
            else t1)
      else warning ExpensesExceedIncome t)"

text \<open>2. Monthly Savings (25 points).\<close>

definition monthlySavings :: "analysis \<Rightarrow> tally \<Rightarrow> tally" where
  "monthlySavings a t =
     (if savingsPerMonth a > threshold then
        strength (MonthlySavingsExceedsThreshold (savingsPerMonth a)) (award 25 t)
      else if savingsPerMonth a > 0 then
        warning (MonthlySavingsBelowThreshold (savingsPerMonth a)) (award 10 t)
      else warning NegativeMonthlySavings t)"

text \<open>3. Savings Rate (15 points).\<close>

definition savingsRatePoints :: "analysis \<Rightarrow> tally \<Rightarrow> tally" where
  "savingsRatePoints a t =
     (if savingsRate a \<ge> 20 then strength (HighSavingsRate (savingsRate a)) (award 15 t)
      else if savingsRate a \<ge> 10 then strength (ModerateSavingsRate (savingsRate a)) (award 10 t)
      else if savingsRate a > 0 then warning (LowSavingsRate (savingsRate a)) (award 5 t)
      else t)"

text \<open>4. Income Consistency (10 points).\<close>

definition incomeConsistencyPoints :: "analysis \<Rightarrow> tally \<Rightarrow> tally" where
  "incomeConsistencyPoints a t =
     (if incomeConsistency a \<ge> 80 then strength VeryConsistentIncome (award 10 t)
      else if incomeConsistency a \<ge> 60 then strength ModeratelyConsistentIncome (award 7 t)
      else if incomeConsistency a \<ge> 40 then warning IrregularIncome (award 4 t)
      else warning HighlyIrregularIncome t)"

text \<open>5. Spending Volatility (10 points).\<close>

definition spendingVolatilityPoints :: "analysis \<Rightarrow> tally \<Rightarrow> tally" where
  "spendingVolatilityPoints a t =
     (if spendingVolatility a \<ge> 80 then strength StableSpending (award 10 t)
      else if spendingVolatility a \<ge> 60 then strength ModeratelyStableSpending (award 7 t)
      else warning HighSpendingVolatility t)"

text \<open>6. Emergency Savings Buffer (10 points).\<close>

definition emergencyBufferPoints :: "analysis \<Rightarrow> tally \<Rightarrow> tally" where
  "emergencyBufferPoints a t =
     (if emergencySavingsBuffer a \<ge> 6 then
        strength (StrongEmergencyBuffer (emergencySavingsBuffer a)) (award 10 t)
      else if emergencySavingsBuffer a \<ge> 3 then
        strength (AdequateEmergencyBuffer (emergencySavingsBuffer a)) (award 7 t)
      else if emergencySavingsBuffer a > 0 then
        warning (LowEmergencyBuffer (emergencySavingsBuffer a)) (award 4 t)
      else warning NoEmergencyBuffer t)"

text \<open>7. Bill Payment Regularity (5 points).\<close>

definition billPaymentPoints :: "analysis \<Rightarrow> tally \<Rightarrow> tally" where
  "billPaymentPoints a t =
     (if billPaymentRegularity a \<ge> 80 then strength RegularBillPayments (award 5 t)
      else award 2 t)"

text \<open>8. Account Age (5 points).\<close>

definition accountAgePoints :: "analysis \<Rightarrow> tally \<Rightarrow> tally" where
  "accountAgePoints a t =
     (if accountAgeMonths a \<ge> 12 then
        strength (LongAccountHistory (js_round (accountAgeMonths a))) (award 5 t)
      else if accountAgeMonths a \<ge> 6 then
        strength (ModerateAccountHistory (js_round (accountAgeMonths a))) (award 3 t)
      else warning (ShortAccountHistory (js_round (accountAgeMonths a))) t)"

text \<open>9. Debt Obligations (penalty). The divisor is not guarded.\<close>

definition debtPenalty :: "analysis \<Rightarrow> tally \<Rightarrow> tally" where
  "debtPenalty a t =
     (if monthlyDebtObligations a > 0 then
        (let debtRatio = js_scale (js_div (monthlyDebtObligations a) (averageMonthlyIncome a)) 100
         in if js_gt debtRatio 40 then warning (HighDebtObligations debtRatio) (award (- 15) t)
            else if js_gt debtRatio 20 then warning (ModerateDebtObligations debtRatio) (award (- 8) t)
            else strength (LowDebtObligations debtRatio) t)
      else t)"

text \<open>The tally after the nine rules, before the final adjustment of the score.\<close>

definition runningTally :: "analysis \<Rightarrow> tally" where
  "runningTally a =
     debtPenalty a (accountAgePoints a (billPaymentPoints a (emergencyBufferPoints a
       (spendingVolatilityPoints a (incomeConsistencyPoints a (savingsRatePoints a
         (monthlySavings a (incomeVsExpenses a (0, [], [])))))))))"

text \<open>\<open>score = Math.max(0, Math.min(100, score))\<close>.\<close>

definition finalScore :: "analysis \<Rightarrow> int" where
  "finalScore a = max 0 (min 100 (fst (runningTally a)))"

definition checkEligibility :: "analysis \<Rightarrow> eligibility" where
  "checkEligibility a =
     (let score = finalScore a;
          strengths = fst (snd (runningTally a));
          warnings = snd (snd (runningTally a));
          eligible = (score \<ge> 60 \<and> savingsPerMonth a > threshold
                      \<and> totalIncome a > totalExpenses a \<and> savingsRate a > 5);
          baseAmount = savingsPerMonth a * 3;
          scoreMultiplier = real_of_int score / 100;
          recommendedAmount = min (baseAmount * scoreMultiplier) 100000;
          maxLoanAmount = max recommendedAmount 0
      in \<lparr> eligible = eligible,
           score = js_round (real_of_int score),
           riskLevel = (if score < 40 then high else if score < 60 then medium
                        else if score < 80 then low else very_low),
           reasons = (if eligible then strengths
                      else if length warnings > 0 then warnings else [InsufficientCriteriaMet]),
           strengths = strengths,
           warnings = warnings,
           recommendedLoanAmount = (if eligible then js_round recommendedAmount else 0),
           maxLoanAmount = js_round maxLoanAmount,
           metrics = \<lparr> m_savingsRate = savingsRate a,
                       m_incomeConsistency = incomeConsistency a,
                       m_spendingVolatility = spendingVolatility a,
                       m_emergencySavingsBuffer = emergencySavingsBuffer a,
                       m_billPaymentRegularity = billPaymentRegularity a,
                       m_accountAgeMonths = accountAgeMonths a,
                       m_monthlyDebtObligations = monthlyDebtObligations a \<rparr> \<rparr>)"

section \<open>Notions used in the properties\<close>

text \<open>The array \<open>transactions\<close> of \<open>analyzeTransactions\<close> when the loop over the rows has ended.\<close>

definition classified :: "row list \<Rightarrow> transaction list" where
  "classified data = snd (snd (processRows data))"

text \<open>The kind that the loop gives to the transaction of a row.\<close>

definition rowKind :: "row \<Rightarrow> kind" where
  "rowKind row =
     (if field row ''type'' = Some ''credit'' then income
      else if field row ''type'' = Some ''debit'' then expense
      else if isExpenseText (toLowerCase (rowLabel row [])) then expense
      else if isIncomeText (toLowerCase (rowLabel row [])) \<or> rowAmount row > 0 then income
      else if rowAmount row < 0 then expense
      else income)"

text \<open>Mean, standard deviation and their quotient as functions on the reals.\<close>

definition meanOf :: "real list \<Rightarrow> real" where
  "meanOf vs = (if vs = [] then 0 else sum_list vs / real (length vs))"

definition stdDevOf :: "real list \<Rightarrow> real" where
  "stdDevOf vs = (if vs = [] then 0 else sqrt (meanOf (map (\<lambda>v. (v - meanOf vs) ^ 2) vs)))"

definition variationOf :: "real list \<Rightarrow> real" where
  "variationOf vs = stdDevOf vs / (if meanOf vs = 0 then 1 else meanOf vs)"

definition incomeMonthsOf :: "(string \<times> bucket) list \<Rightarrow> real list" where
  "incomeMonthsOf monthlyData = filter (\<lambda>i. i > 0) (map (\<lambda>m. b_income m) (map snd monthlyData))"

definition expenseMonthsOf :: "(string \<times> bucket) list \<Rightarrow> real list" where
  "expenseMonthsOf monthlyData = filter (\<lambda>e. e > 0) (map (\<lambda>m. b_expenses m) (map snd monthlyData))"

definition savingsRateOf :: "real \<Rightarrow> real \<Rightarrow> real" where
  "savingsRateOf ami ame = (if ami > 0 then (ami - ame) / ami * 100 else 0)"

definition bufferOf :: "real \<Rightarrow> real \<Rightarrow> real" where
  "bufferOf sav ame = (if ame > 0 then sav / ame else 0)"



section \<open>Examples\<close>

text \<open>
  A host whose \<open>new Date\<close> knows three ISO dates, read in UTC, and no other string; the clock
  stands at the start of 2026.
\<close>

definition exampleHost :: host where
  "exampleHost =
     \<lparr> newDate = map_of
         [(''2024-01-05'', \<lparr> getTime = 1704412800000, getFullYear = 2024, getMonth = 0 \<rparr>),
          (''2024-01-10'', \<lparr> getTime = 1704844800000, getFullYear = 2024, getMonth = 0 \<rparr>),
          (''2024-02-10'', \<lparr> getTime = 1707523200000, getFullYear = 2024, getMonth = 1 \<rparr>)],
       nowMin = 1767225600000, nowMax = 1767225600000 \<rparr>"

definition statementRows :: "row list" where
  "statementRows =
     [[(''date'', ''2024-01-05''), (''amount'', ''50000''), (''type'', ''credit'')],
      [(''date'', ''2024-01-10''), (''amount'', ''12000''), (''type'', ''debit'')]]"

definition blankRow :: row where
  "blankRow = [(''date'', ''2024-01-05''), (''description'', ''Opening note'')]"

definition mixedRow :: row where
  "mixedRow =
     [(''Date'', ''2024-01-05''), (''Description'', ''Refund of card payment credit''),
      (''Amount'', ''1,250.75'')]"

definition halfUnitAnalysis :: analysis where
  "halfUnitAnalysis =
     \<lparr> totalIncome = 60001 / 2, totalExpenses = 20000, savings = 20001 / 2,
       averageMonthlyIncome = 60001 / 2, averageMonthlyExpenses = 20000,
       savingsPerMonth = 20001 / 2, savingsRate = 2000100 / 60001,
       transactionCount = 2, transactions = [],
       incomeConsistency = 100, spendingVolatility = 100,
       emergencySavingsBuffer = 20001 / 40000, billPaymentRegularity = 50,
       accountAgeMonths = 1, monthlyDebtObligations = 0, totalDebtObligations = 0,
       monthlyBreakdown = [],
       dateRange = \<lparr> dr_start = 1704412800000, dr_end = 1704844800000, dr_days = 5 \<rparr> \<rparr>"

definition negativeRow :: row where
  "negativeRow = [(''Date'', ''2024-02-10''), (''Amount'', ''-250.00''), (''Details'', ''ATM'')]"






definition statementText :: string where
  "statementText = ''Date Description Amount Balance'' @ [CHR 0x0A]
     @ ''01/02/2024 Coffee shop -12.50 1,234.56'' @ [CHR 0x0A]
     @ ''Lunch 12.50, thanks'' @ [CHR 0x0A]
     @ ''03/02/2024 Salary ACME 2,500.00'' @ [CHR 0x0A]"





section \<open>Properties of the loop over the rows\<close>

text \<open>Every row pushes one transaction and adds its amount to one of the two totals.\<close>

lemma processRow_eq:
  "processRow row (ti, te, txs) =
     (ti + (if rowKind row = income then \<bar>rowAmount row\<bar> else 0),
      te + (if rowKind row = expense then \<bar>rowAmount row\<bar> else 0),
      txs @ [pushed row (rowKind row)])"
  by (simp add: processRow_def rowKind_def Let_def)

lemma foldl_processRow:
  "foldl (\<lambda>state row. processRow row state) (ti, te, txs) data =
     (ti + sum_list (map (\<lambda>row. if rowKind row = income then \<bar>rowAmount row\<bar> else 0) data),
      te + sum_list (map (\<lambda>row. if rowKind row = expense then \<bar>rowAmount row\<bar> else 0) data),
      txs @ map (\<lambda>row. pushed row (rowKind row)) data)"
proof (induction data arbitrary: ti te txs)
  case Nil
  then show ?case by simp
next
  case (Cons row data)
  show ?case
    by (simp only: foldl_Cons processRow_eq Cons.IH) (simp add: algebra_simps)
qed

lemma processRows_eq:
  "processRows data =
     (sum_list (map (\<lambda>row. if rowKind row = income then \<bar>rowAmount row\<bar> else 0) data),
      sum_list (map (\<lambda>row. if rowKind row = expense then \<bar>rowAmount row\<bar> else 0) data),
      map (\<lambda>row. pushed row (rowKind row)) data)"
  by (simp add: processRows_def foldl_processRow)

lemma classified_eq: "classified data = map (\<lambda>row. pushed row (rowKind row)) data"
  by (simp add: classified_def processRows_eq)

lemma amount_pushed: "amount (pushed row k) = \<bar>rowAmount row\<bar>"
  by (simp add: pushed_def)

lemma kind_pushed: "kind (pushed row k) = k"
  by (simp add: pushed_def)




section \<open>Properties of the metrics\<close>

text \<open>The divisions of the analysis have divisors that are not zero.\<close>

lemma js_finite_div: "b \<noteq> 0 \<Longrightarrow> js_finite (js_div a b) = Some (a / b)"
  by (simp add: js_div_def)

lemma js_finite_div_pos: "0 < b \<Longrightarrow> js_finite (js_div a b) = Some (a / b)"
  by (simp add: js_div_def)

lemma foldl_plus: "foldl (\<lambda>sum val. sum + val) a vs = a + sum_list vs" for a :: real
  by (induction vs arbitrary: a) simp_all

lemma calculateMean_eq: "calculateMean vs = Some (meanOf vs)"
  by (simp add: calculateMean_def meanOf_def js_finite_div foldl_plus)

lemma meanOf_nonneg: "(\<And>v. v \<in> set vs \<Longrightarrow> 0 \<le> v) \<Longrightarrow> 0 \<le> meanOf vs"
  by (simp add: meanOf_def sum_list_nonneg)

lemma calculateStandardDeviation_eq: "calculateStandardDeviation vs = Some (stdDevOf vs)"
proof -
  have "0 \<le> meanOf (map (\<lambda>v. (v - meanOf vs) ^ 2) vs)"
    by (rule meanOf_nonneg) auto
  then show ?thesis
    by (simp add: calculateStandardDeviation_def stdDevOf_def calculateMean_eq js_sqrt_def)
qed

lemma variation_Some:
  "do { sd \<leftarrow> calculateStandardDeviation vs; mean \<leftarrow> calculateMean vs;
        q \<leftarrow> js_finite (js_div sd (if mean = 0 then 1 else mean)); Some (f q) }
   = Some (f (variationOf vs))"
  by (simp add: calculateStandardDeviation_eq calculateMean_eq js_finite_div variationOf_def)

lemma incomeConsistencyOf_eq:
  "incomeConsistencyOf md =
     Some (if incomeMonthsOf md = [] then 0 else (1 - variationOf (incomeMonthsOf md)) * 100)"
  unfolding incomeConsistencyOf_def Let_def incomeMonthsOf_def [symmetric]
  by (simp add: variation_Some)

lemma spendingVolatilityOf_eq:
  "spendingVolatilityOf md =
     Some (if expenseMonthsOf md = [] then 0 else variationOf (expenseMonthsOf md) * 100)"
  unfolding spendingVolatilityOf_def Let_def expenseMonthsOf_def [symmetric]
  by (simp add: variation_Some)

lemma daysDiff_ge1: "1 \<le> daysDiff h txs"
  by (simp add: daysDiff_def)

lemma monthsDiff_ge1: "1 \<le> monthsDiff h txs"
  by (simp add: monthsDiff_def)

lemma monthsDiff_nz: "monthsDiff h txs \<noteq> 0"
  using monthsDiff_ge1 [of h txs] by linarith

text \<open>The analysis returns for every host and every list of rows, with these fields.\<close>

lemma analyzeTransactions_eq:
  "analyzeTransactions h data =
     Some \<lparr> totalIncome = fst (processRows data),
            totalExpenses = fst (snd (processRows data)),
            savings = fst (processRows data) - fst (snd (processRows data)),
            averageMonthlyIncome = fst (processRows data) / monthsDiff h (classified data),
            averageMonthlyExpenses = fst (snd (processRows data)) / monthsDiff h (classified data),
            savingsPerMonth = fst (processRows data) / monthsDiff h (classified data)
                              - fst (snd (processRows data)) / monthsDiff h (classified data),
            savingsRate = savingsRateOf (fst (processRows data) / monthsDiff h (classified data))
                            (fst (snd (processRows data)) / monthsDiff h (classified data)),
            transactionCount = length (classified data),
            transactions = take 50 (classified data),
            incomeConsistency =
              max 0 (min 100 (if incomeMonthsOf (monthlyDataOf h (classified data)) = [] then 0
                 else (1 - variationOf (incomeMonthsOf (monthlyDataOf h (classified data)))) * 100)),
            spendingVolatility =
              max 0 (min 100 (100 - (if expenseMonthsOf (monthlyDataOf h (classified data)) = [] then 0
                 else variationOf (expenseMonthsOf (monthlyDataOf h (classified data))) * 100))),
            emergencySavingsBuffer =
              bufferOf (fst (processRows data) - fst (snd (processRows data)))
                (fst (snd (processRows data)) / monthsDiff h (classified data)),
            billPaymentRegularity =
              (if detectRecurringPayments (classified data) \<noteq> [] then 100 else 50),
            accountAgeMonths = monthsDiff h (classified data),
            monthlyDebtObligations =
              sum_list (map amount (debtTransactions (classified data))) / monthsDiff h (classified data),
            totalDebtObligations = sum_list (map amount (debtTransactions (classified data))),
            monthlyBreakdown = monthlyBreakdownOf (monthlyDataOf h (classified data)),
            dateRange = \<lparr> dr_start = minDate h (classified data), dr_end = maxDate h (classified data),
                          dr_days = daysDiff h (classified data) \<rparr> \<rparr>"
proof -
  obtain ti te txs where p: "processRows data = (ti, te, txs)"
    by (cases "processRows data") auto
  have c: "classified data = txs"
    by (simp add: classified_def p)
  have fl: "foldl (\<lambda>sum t. sum + amount t) 0 ts = sum_list (map amount ts)" for ts :: "transaction list"
    using foldl_plus [of 0 "map amount ts"] by (simp add: foldl_map)
  show ?thesis
    unfolding analyzeTransactions_def p c
    by (simp add: Let_def js_finite_div js_finite_div_pos monthsDiff_nz incomeConsistencyOf_eq
        spendingVolatilityOf_eq savingsRateOf_def bufferOf_def fl del: divide_pos_pos)
qed

section \<open>Properties of the scorer\<close>

lemma js_round_of_int: "js_round (real_of_int n) = n"
  by (simp add: js_round_def)

lemma score_checkEligibility: "score (checkEligibility a) = finalScore a"
  by (simp add: checkEligibility_def Let_def js_round_of_int)

lemma eligible_checkEligibility:
  "eligible (checkEligibility a) =
     (finalScore a \<ge> 60 \<and> savingsPerMonth a > 10000
      \<and> totalIncome a > totalExpenses a \<and> savingsRate a > 5)"
  by (simp add: checkEligibility_def Let_def threshold_def)

lemmas scorer_defs =
  runningTally_def incomeVsExpenses_def monthlySavings_def savingsRatePoints_def
  incomeConsistencyPoints_def spendingVolatilityPoints_def emergencyBufferPoints_def
  billPaymentPoints_def accountAgePoints_def debtPenalty_def award_def strength_def
  warning_def js_div_def threshold_def Let_def js_round_def finalScore_def

lemma halfUnit_score: "finalScore halfUnitAnalysis = 100"
  by (simp add: halfUnitAnalysis_def scorer_defs)







text \<open>
  C1. The flag \<open>eligible\<close> that the scorer returns is true exactly when the returned score, which
  is the running total clamped to 0..100, is at least 60, \<open>savingsPerMonth\<close> is above 10000,
  \<open>totalIncome\<close> is above \<open>totalExpenses\<close> and \<open>savingsRate\<close> is above 5.
\<close>

theorem eligible_iff_all_four:
  "eligible (checkEligibility a) =
     (score (checkEligibility a) \<ge> 60 \<and> savingsPerMonth a > 10000
      \<and> totalIncome a > totalExpenses a \<and> savingsRate a > 5)
   \<and> score (checkEligibility a) = max 0 (min 100 (fst (runningTally a)))"
  by (simp add: score_checkEligibility eligible_checkEligibility) (simp add: finalScore_def)

theorem eligible_iff_all_four_witness:
  "eligible (checkEligibility halfUnitAnalysis) \<and> score (checkEligibility halfUnitAnalysis) = 100"
  using eligible_iff_all_four [of halfUnitAnalysis] halfUnit_score
  by (simp add: score_checkEligibility) (simp add: halfUnitAnalysis_def)




section \<open>Properties of the classification\<close>


lemma blankRow_amount:
  "amountFromColumns blankRow amountColumns 0 = 0 \<and> amountFromAnyField blankRow (keys blankRow) = None"
  by code_simp

lemma blankRow_classified:
  "classified [blankRow] =
     [\<lparr> amount = 0, kind = income, description = ''opening note'', date = ''2024-01-05'' \<rparr>]"
  by code_simp

lemma mixedRow_text:
  "field mixedRow ''type'' = None
   \<and> toLowerCase (rowLabel mixedRow []) = ''refund of card payment credit''
   \<and> isExpenseText ''refund of card payment credit''
   \<and> isIncomeText ''refund of card payment credit''"
  by code_simp

lemma mixedRow_pushed:
  "pushed mixedRow expense =
     \<lparr> amount = 125075 / 100, kind = expense, description = ''refund of card payment credit'',
       date = ''2024-01-05'' \<rparr>"
  by code_simp

lemma negativeRow_amount: "rowAmount negativeRow = - 250"
  by code_simp

lemma transactionCount_analyze:
  "map_option transactionCount (analyzeTransactions h data) = Some (length data)"
  by (simp add: analyzeTransactions_eq classified_eq)

lemma unresolved_rowAmount:
  "amountFromColumns row amountColumns 0 = 0 \<Longrightarrow> amountFromAnyField row (keys row) = None
   \<Longrightarrow> rowAmount row = 0"
  by (simp add: rowAmount_def)

text \<open>
  C3 as stated fails: a row with no resolvable amount is not dropped. The row below has no
  amount column and no field that parses to a number, and the loop pushes a transaction of
  amount 0 for it, which the transaction count includes.
\<close>

theorem unresolved_amount_counterexample:
  "amountFromColumns blankRow amountColumns 0 = 0
   \<and> amountFromAnyField blankRow (keys blankRow) = None
   \<and> classified [blankRow] =
       [\<lparr> amount = 0, kind = income, description = ''opening note'', date = ''2024-01-05'' \<rparr>]
   \<and> map_option transactionCount (analyzeTransactions exampleHost [blankRow]) = Some 1"
  by (simp add: blankRow_amount blankRow_classified transactionCount_analyze)

text \<open>
  C3, amended. For every row in which no amount can be resolved, the loop pushes exactly one
  transaction, of amount 0, and leaves \<open>totalIncome\<close> and \<open>totalExpenses\<close> as they were; the
  row is counted in \<open>transactionCount\<close>, which is the number of rows.
\<close>

theorem unresolved_amount_row_kept:
  assumes "amountFromColumns row amountColumns 0 = 0"
    and "amountFromAnyField row (keys row) = None"
  shows "(\<exists>t. processRow row (ti, te, txs) = (ti, te, txs @ [t]) \<and> amount t = 0)
         \<and> map_option transactionCount (analyzeTransactions h (before @ row # after))
             = Some (length before + 1 + length after)"
proof -
  have "rowAmount row = 0"
    using assms by (rule unresolved_rowAmount)
  then have "processRow row (ti, te, txs) = (ti, te, txs @ [pushed row (rowKind row)])"
    and "amount (pushed row (rowKind row)) = 0"
    by (simp_all add: processRow_eq amount_pushed)
  then show ?thesis
    by (auto simp add: transactionCount_analyze)
qed

theorem unresolved_amount_row_kept_witness:
  "amountFromColumns blankRow amountColumns 0 = 0
   \<and> amountFromAnyField blankRow (keys blankRow) = None
   \<and> (\<exists>t. processRow blankRow (50000, 12000, []) = (50000, 12000, [t]) \<and> amount t = 0)
   \<and> map_option transactionCount (analyzeTransactions exampleHost (statementRows @ [blankRow]))
       = Some 3"
  using unresolved_amount_row_kept [of blankRow 50000 12000 "[]" exampleHost statementRows "[]"]
    blankRow_amount
  by (simp add: statementRows_def eval_nat_numeral)



text \<open>
  C6. Every transaction that the loop produces has an amount that is not negative: it is the
  absolute value of the amount resolved for its row.
\<close>

theorem amount_nonnegative:
  "(\<forall>t \<in> set (classified data). 0 \<le> amount t)
   \<and> map amount (classified data) = map (\<lambda>row. \<bar>rowAmount row\<bar>) data"
  by (simp add: classified_eq amount_pushed)

theorem amount_nonnegative_witness:
  "rowAmount negativeRow = - 250 \<and> map amount (classified [negativeRow]) = [250]"
  using amount_nonnegative [of "[negativeRow]"] by (simp add: negativeRow_amount)

text \<open>
  C7. For a row whose field \<open>type\<close> is neither \<open>credit\<close> nor \<open>debit\<close>, when the lower-cased text
  of type or description contains an expense keyword and an income keyword, the transaction
  pushed is of kind expense and its amount goes to \<open>totalExpenses\<close>.
\<close>

theorem expense_keywords_take_priority:
  assumes "field row ''type'' \<noteq> Some ''credit''" and "field row ''type'' \<noteq> Some ''debit''"
    and "isExpenseText (toLowerCase (rowLabel row []))"
    and "isIncomeText (toLowerCase (rowLabel row []))"
  shows "processRow row (ti, te, txs) = (ti, te + \<bar>rowAmount row\<bar>, txs @ [pushed row expense])
         \<and> kind (pushed row expense) = expense"
  using assms by (simp add: processRow_eq rowKind_def kind_pushed)

theorem expense_keywords_take_priority_witness:
  "field mixedRow ''type'' \<noteq> Some ''credit'' \<and> field mixedRow ''type'' \<noteq> Some ''debit''
   \<and> isExpenseText (toLowerCase (rowLabel mixedRow []))
   \<and> isIncomeText (toLowerCase (rowLabel mixedRow []))
   \<and> processRow mixedRow (0, 0, []) =
       (0, 125075 / 100,
        [\<lparr> amount = 125075 / 100, kind = expense,
            description = ''refund of card payment credit'', date = ''2024-01-05'' \<rparr>])"
  using expense_keywords_take_priority [of mixedRow 0 0 "[]"] mixedRow_text
  by (simp add: mixedRow_pushed amount_pushed [of mixedRow expense, symmetric])

section \<open>Fields of the analysis\<close>



section \<open>Properties of the analysis\<close>















section \<open>Properties of the document text extractor\<close>








lemma statementText_parsed:
  "parsePDF statementText =
     [\<lparr> pdf_date = ''01/02/2024'', pdf_description = ''Coffee shop'',
         pdf_amount = 123456 / 100, pdf_type = credit \<rparr>,
      \<lparr> pdf_date = ''03/02/2024'', pdf_description = ''Salary ACME'',
         pdf_amount = 2500, pdf_type = credit \<rparr>]"
  by code_simp


section \<open>The monthly data as a function of the transactions\<close>










section \<open>Permutations of the transactions\<close>






























section \<open>Order of the rows\<close>





end
